theory Spec2Isabelle
  imports Complex_Main "HOL-Library.Sublist"
begin

section \<open>Values, library functions and the outside world\<close>

text \<open>
  The two scripts \<^verbatim>\<open>fill_anvil_template.py\<close> (the Filler) and
  \<^verbatim>\<open>create_anvil_template.py\<close> (the Creator) are embedded as HOL functions.

  Text and bytes. A Python \<^verbatim>\<open>str\<close> is represented by its UTF-8 encoding, a
  \<^verbatim>\<open>bytes\<close> object by its bytes; both are \<^typ>\<open>string\<close> (lists of 8-bit
  characters). \<^verbatim>\<open>s.encode("utf-8")\<close> is therefore the identity and an f-string is
  concatenation.
\<close>

type_synonym bytes = string
type_synonym path = string

abbreviation CR :: char where "CR \<equiv> CHR 0x0D"
abbreviation LF :: char where "LF \<equiv> CHR 0x0A"
abbreviation DQ :: char where "DQ \<equiv> CHR 0x22"
abbreviation CRLF :: string where "CRLF \<equiv> [CR, LF]"

text \<open>
  A value decoded by \<^verbatim>\<open>json.loads\<close>. A \<^verbatim>\<open>dict\<close> is the list of its items in
  insertion order. Python floats are either finite (given by their value) or one of
  the three special values \<^verbatim>\<open>json.loads\<close> accepts.
\<close>

datatype pyfloat = Finite rat | PosInf | NegInf | NaN

datatype json =
    JNull
  | JBool bool
  | JInt int
  | JFloat pyfloat
  | JStr string
  | JList "json list"
  | JObj "(string \<times> json) list"

text \<open>Python's truth value of a decoded value (\<^verbatim>\<open>if v:\<close>, \<^verbatim>\<open>v or d\<close>).\<close>

fun truthy :: "json \<Rightarrow> bool" where
  "truthy JNull = False"
| "truthy (JBool b) = b"
| "truthy (JInt i) = (i \<noteq> 0)"
| "truthy (JFloat f) = (f \<noteq> Finite 0)"
| "truthy (JStr s) = (s \<noteq> [])"
| "truthy (JList xs) = (xs \<noteq> [])"
| "truthy (JObj kvs) = (kvs \<noteq> [])"

text \<open>\<^verbatim>\<open>a or b\<close> on decoded values.\<close>

definition py_or :: "json \<Rightarrow> json \<Rightarrow> json" where
  "py_or a b = (if truthy a then a else b)"

text \<open>The truth value of an optional string (\<^verbatim>\<open>None\<close> and \<^verbatim>\<open>""\<close> are false).\<close>

fun opt_truthy :: "string option \<Rightarrow> bool" where
  "opt_truthy None = False"
| "opt_truthy (Some s) = (s \<noteq> [])"

text \<open>\<^verbatim>\<open>d.get(k)\<close>, \<^verbatim>\<open>k in d\<close> and \<^verbatim>\<open>d[k] = v\<close> on a dict. An assignment to an
  existing key keeps the key's position; a new key goes to the end.\<close>

definition dict_get :: "(string \<times> json) list \<Rightarrow> string \<Rightarrow> json" where
  "dict_get kvs k = (case map_of kvs k of None \<Rightarrow> JNull | Some v \<Rightarrow> v)"

definition dict_has :: "(string \<times> json) list \<Rightarrow> string \<Rightarrow> bool" where
  "dict_has kvs k = (map_of kvs k \<noteq> None)"

fun dict_set :: "string \<Rightarrow> json \<Rightarrow> (string \<times> json) list \<Rightarrow> (string \<times> json) list" where
  "dict_set k v [] = [(k, v)]"
| "dict_set k v ((k', v') # kvs) =
     (if k' = k then (k, v) # kvs else (k', v') # dict_set k v kvs)"

text \<open>
  Exceptions. \<^verbatim>\<open>RuntimeError\<close> is the only class the scripts catch; any other
  exception (named by its class) leaves \<^verbatim>\<open>main\<close> uncaught.
\<close>

datatype exn = RuntimeError string | Other string

definition and_then :: "exn + 'a \<Rightarrow> ('a \<Rightarrow> exn + 'b) \<Rightarrow> exn + 'b" where
  "and_then m f = (case m of Inl e \<Rightarrow> Inl e | Inr x \<Rightarrow> f x)"

text \<open>
  The standard-library functions the scripts call are not part of the repository; they
  are parameters of the model, collected in one record. \<^verbatim>\<open>json.loads\<close> returns
  \<open>None\<close> where Python raises \<^verbatim>\<open>JSONDecodeError\<close>, and \<open>decode_strict\<close> returns
  \<open>None\<close> where \<^verbatim>\<open>bytes.decode("utf-8")\<close> raises \<^verbatim>\<open>UnicodeDecodeError\<close>.
  \<open>json_dumps\<close> is \<^verbatim>\<open>json.dumps\<close> with its default arguments,
  \<open>json_dumps_unicode\<close> with \<^verbatim>\<open>ensure_ascii=False\<close>, \<open>json_dumps_indent\<close> with
  \<^verbatim>\<open>indent=2, ensure_ascii=False\<close>; \<open>str_take n s\<close> is the slice \<^verbatim>\<open>s[:n]\<close>, which
  counts code points; \<open>Path\<close> and the \<open>path_\<close> functions are \<^verbatim>\<open>pathlib\<close>'s
  constructor, \<^verbatim>\<open>.name\<close>, \<^verbatim>\<open>.stem\<close>, \<^verbatim>\<open>.parent\<close> and \<^verbatim>\<open>/\<close>, a path being
  represented by its \<^verbatim>\<open>str\<close>.
\<close>

record pylib =
  json_loads :: "string \<Rightarrow> json option"
  json_dumps :: "json \<Rightarrow> string"
  json_dumps_unicode :: "json \<Rightarrow> string"
  json_dumps_indent :: "json \<Rightarrow> string"
  decode_strict :: "bytes \<Rightarrow> string option"
  decode_replace :: "bytes \<Rightarrow> string"
  b64encode :: "bytes \<Rightarrow> string"
  guess_type :: "string \<Rightarrow> string option"
  py_str :: "json \<Rightarrow> string"
  str_take :: "nat \<Rightarrow> string \<Rightarrow> string"
  Path :: "string \<Rightarrow> path"
  path_name :: "path \<Rightarrow> string"
  path_stem :: "path \<Rightarrow> string"
  path_parent :: "path \<Rightarrow> path"
  path_join :: "path \<Rightarrow> string \<Rightarrow> path"

text \<open>\<^verbatim>\<open>str(n)\<close> of a Python int: decimal digits, with a minus sign when negative.\<close>

fun str_nat :: "nat \<Rightarrow> string" where
  "str_nat n = (if n < 10 then [''0123456789'' ! n]
                else str_nat (n div 10) @ [''0123456789'' ! (n mod 10)])"

declare str_nat.simps [simp del]

definition str_int :: "int \<Rightarrow> string" where
  "str_int i = (if i < 0 then ''-'' @ str_nat (nat (- i)) else str_nat (nat i))"

text \<open>\<^verbatim>\<open>f"{v}"\<close> of a decoded value: a string is itself, anything else goes through
  the library's \<^verbatim>\<open>str\<close>.\<close>

definition fmt :: "pylib \<Rightarrow> json \<Rightarrow> string" where
  "fmt lib v = (case v of JStr s \<Rightarrow> s | JInt i \<Rightarrow> str_int i | _ \<Rightarrow> py_str lib v)"

text \<open>
  The file system the script starts in. \<^verbatim>\<open>Path.exists()\<close> is true of files and of
  directories; reading a directory or a missing path raises an \<^verbatim>\<open>OSError\<close>, which
  no script catches.
\<close>

datatype node = File bytes | Dir

type_synonym fs = "path \<Rightarrow> node option"

definition path_exists :: "fs \<Rightarrow> path \<Rightarrow> bool" where
  "path_exists fs p = (fs p \<noteq> None)"

definition read_bytes :: "fs \<Rightarrow> path \<Rightarrow> exn + bytes" where
  "read_bytes fs p =
     (case fs p of
        None \<Rightarrow> Inl (Other ''FileNotFoundError'')
      | Some Dir \<Rightarrow> Inl (Other ''IsADirectoryError'')
      | Some (File b) \<Rightarrow> Inr b)"

definition read_text :: "pylib \<Rightarrow> fs \<Rightarrow> path \<Rightarrow> exn + string" where
  "read_text lib fs p =
     and_then (read_bytes fs p) (\<lambda>b.
       case decode_strict lib b of
         None \<Rightarrow> Inl (Other ''UnicodeDecodeError'')
       | Some s \<Rightarrow> Inr s)"

text \<open>\<^verbatim>\<open>json.loads(p.read_text(encoding="utf-8"))\<close>.\<close>

definition load_json_file :: "pylib \<Rightarrow> fs \<Rightarrow> path \<Rightarrow> exn + json" where
  "load_json_file lib fs p =
     and_then (read_text lib fs p) (\<lambda>txt.
       case json_loads lib txt of
         None \<Rightarrow> Inl (Other ''JSONDecodeError'')
       | Some v \<Rightarrow> Inr v)"

text \<open>\<^verbatim>\<open>v.get(k)\<close> on a decoded value: only a dict has the method.\<close>

definition get_method :: "json \<Rightarrow> string \<Rightarrow> exn + json" where
  "get_method v k = (case v of JObj kvs \<Rightarrow> Inr (dict_get kvs k) | _ \<Rightarrow> Inl (Other ''AttributeError''))"

text \<open>
  What \<^verbatim>\<open>urlopen\<close> does with one request: it returns a response whose body is read,
  raises \<^verbatim>\<open>HTTPError\<close> (status code and body; urllib raises it for every final status
  outside 200..299), raises another \<^verbatim>\<open>URLError\<close> (given by its \<^verbatim>\<open>str\<close>), or
  raises something else.
\<close>

datatype response =
    Resp_ok bytes
  | Http_error int bytes
  | Url_error string
  | Raises string

record request =
  url :: string
  meth :: string
  headers :: "(string \<times> string) list"
  body :: bytes

text \<open>What a run does to the outside, in order, and how it ends.\<close>

datatype event =
    Stdout string
  | Stderr string
  | Http request
  | Mkdir path
  | Write path bytes

datatype exit = Returned int | Uncaught string

fun is_write :: "event \<Rightarrow> bool" where
  "is_write (Write p b) = True"
| "is_write _ = False"

fun is_http :: "event \<Rightarrow> bool" where
  "is_http (Http r) = True"
| "is_http _ = False"

definition auth_header :: "pylib \<Rightarrow> string \<Rightarrow> string" where
  "auth_header lib api_key = ''Basic '' @ b64encode lib (api_key @ '':'')"

section \<open>The Filler\<close>

record fill_args =
  template_id :: "string option"
  template_metadata :: "string option"
  payload :: "string option"
  out :: string
  version_number :: "int option"
  no_interactive :: bool
  default_read_only :: bool

text \<open>\<^verbatim>\<open>resolve_template_id\<close>. The identifier read from the metadata is whatever
  JSON value the file holds.\<close>

definition template_id_from_metadata :: "pylib \<Rightarrow> fs \<Rightarrow> path option \<Rightarrow> exn + (json \<times> path option)" where
  "template_id_from_metadata lib fs metadata_path =
     (case metadata_path of
        None \<Rightarrow> Inl (RuntimeError ''Provide either --template-id or --template-metadata'')
      | Some mp \<Rightarrow>
          if \<not> path_exists fs mp then Inl (RuntimeError (''Template metadata not found: '' @ mp))
          else and_then (load_json_file lib fs mp) (\<lambda>meta.
               and_then (get_method meta ''templateId'') (\<lambda>resolved.
                 if \<not> truthy resolved
                 then Inl (RuntimeError (''templateId missing in metadata: '' @ mp))
                 else Inr (resolved, Some mp))))"

definition resolve_template_id ::
  "pylib \<Rightarrow> fs \<Rightarrow> string option \<Rightarrow> path option \<Rightarrow> exn + (json \<times> path option)" where
  "resolve_template_id lib fs tid metadata_path =
     (case tid of
        Some t \<Rightarrow> if t \<noteq> [] then Inr (JStr t, metadata_path)
                  else template_id_from_metadata lib fs metadata_path
      | None \<Rightarrow> template_id_from_metadata lib fs metadata_path)"

text \<open>\<^verbatim>\<open>resolve_payload_path\<close>. A \<^verbatim>\<open>Path\<close> object is always true, so
  \<^verbatim>\<open>if payload_path:\<close> tests for \<^verbatim>\<open>None\<close> only. \<^verbatim>\<open>Path(from_meta)\<close> raises
  \<^verbatim>\<open>TypeError\<close> on a value that is not a string.\<close>

definition resolve_payload_path :: "pylib \<Rightarrow> fs \<Rightarrow> path option \<Rightarrow> path option \<Rightarrow> exn + path" where
  "resolve_payload_path lib fs payload_path metadata_path =
     (case payload_path of
        Some p \<Rightarrow> Inr p
      | None \<Rightarrow>
         (case metadata_path of
            None \<Rightarrow> Inl (RuntimeError ''Provide --payload when using --template-id directly'')
          | Some mp \<Rightarrow>
              and_then (load_json_file lib fs mp) (\<lambda>meta.
              and_then (get_method meta ''examplePayloadPath'') (\<lambda>from_meta.
                if \<not> truthy from_meta
                then Inl (RuntimeError
                       ''examplePayloadPath missing in metadata; provide --payload explicitly'')
                else (case from_meta of
                        JStr s \<Rightarrow> Inr (Path lib s)
                      | _ \<Rightarrow> Inl (Other ''TypeError''))))))"

text \<open>\<^verbatim>\<open>fill_pdf\<close>: the request it builds, and its result on each thing
  \<^verbatim>\<open>urlopen\<close> can do.\<close>

definition fill_url :: "pylib \<Rightarrow> json \<Rightarrow> int option \<Rightarrow> string" where
  "fill_url lib tid vn =
     (let u = ''https://app.useanvil.com/api/v1/fill/'' @ fmt lib tid @ ''.pdf''
      in case vn of None \<Rightarrow> u | Some n \<Rightarrow> u @ ''?versionNumber='' @ str_int n)"

definition fill_request :: "pylib \<Rightarrow> json \<Rightarrow> string \<Rightarrow> (string \<times> json) list \<Rightarrow> int option \<Rightarrow> request" where
  "fill_request lib tid api_key pl vn =
     \<lparr> url = fill_url lib tid vn,
       meth = ''POST'',
       headers = [(''Authorization'', auth_header lib api_key),
                  (''Content-Type'', ''application/json''),
                  (''Accept'', ''application/pdf'')],
       body = json_dumps lib (JObj pl) \<rparr>"

definition fill_pdf :: "pylib \<Rightarrow> response \<Rightarrow> exn + bytes" where
  "fill_pdf lib resp =
     (case resp of
        Resp_ok b \<Rightarrow> Inr b
      | Http_error code detail \<Rightarrow>
          Inl (RuntimeError (''Anvil API error '' @ str_int code @ '': '' @ decode_replace lib detail))
      | Url_error s \<Rightarrow> Inl (RuntimeError (''Network error: '' @ s))
      | Raises c \<Rightarrow> Inl (Other c))"

text \<open>Lines 103 to 105 of \<^verbatim>\<open>main\<close>: the two rendering flags.\<close>

definition inject_flags :: "bool \<Rightarrow> bool \<Rightarrow> (string \<times> json) list \<Rightarrow> (string \<times> json) list" where
  "inject_flags no_inter dro pl =
     (if \<not> no_inter
      then dict_set ''defaultReadOnly'' (JBool dro) (dict_set ''useInteractiveFields'' (JBool True) pl)
      else pl)"

text \<open>Lines 90 to 105 of \<^verbatim>\<open>main\<close>: everything inside the \<^verbatim>\<open>try\<close> before the
  request. Nothing here touches the outside world except by reading files.\<close>

definition opt_path :: "pylib \<Rightarrow> string option \<Rightarrow> path option" where
  "opt_path lib a = (if opt_truthy a then map_option (Path lib) a else None)"

definition fill_prepare ::
  "pylib \<Rightarrow> fill_args \<Rightarrow> fs \<Rightarrow> exn + (json \<times> path \<times> (string \<times> json) list)" where
  "fill_prepare lib args fs =
     and_then (resolve_template_id lib fs (template_id args) (opt_path lib (template_metadata args)))
       (\<lambda>(tid, resolved_meta).
     and_then (resolve_payload_path lib fs (opt_path lib (payload args)) resolved_meta)
       (\<lambda>payload_path.
     if \<not> path_exists fs payload_path
     then Inl (RuntimeError (''Payload file not found: '' @ payload_path))
     else and_then (load_json_file lib fs payload_path) (\<lambda>pl.
       case pl of
         JObj kvs \<Rightarrow> Inr (tid, payload_path,
                          inject_flags (no_interactive args) (default_read_only args) kvs)
       | _ \<Rightarrow> Inl (RuntimeError ''Payload JSON must be an object''))))"

text \<open>The whole \<^verbatim>\<open>try\<close> block: the events it causes and its result.\<close>

definition fill_try ::
  "pylib \<Rightarrow> fill_args \<Rightarrow> string \<Rightarrow> fs \<Rightarrow> response \<Rightarrow> event list \<times> (exn + (json \<times> path \<times> bytes))" where
  "fill_try lib args api_key fs resp =
     (case fill_prepare lib args fs of
        Inl e \<Rightarrow> ([], Inl e)
      | Inr (tid, payload_path, pl) \<Rightarrow>
          ([Http (fill_request lib tid api_key pl (version_number args))],
           and_then (fill_pdf lib resp) (\<lambda>pdf_bytes. Inr (tid, payload_path, pdf_bytes))))"

definition missing_api_key :: "exit \<times> event list" where
  "missing_api_key = (Returned 2, [Stderr ''Missing ANVIL_API_KEY environment variable''])"

text \<open>\<^verbatim>\<open>main\<close> of the Filler, given the parsed arguments, the value of
  \<^verbatim>\<open>ANVIL_API_KEY\<close>, the file system and the server's answer to the one request.\<close>

definition fill_run ::
  "pylib \<Rightarrow> fill_args \<Rightarrow> string \<Rightarrow> fs \<Rightarrow> response \<Rightarrow> exit \<times> event list" where
  "fill_run lib args api_key fs resp =
     (case fill_try lib args api_key fs resp of
        (evs, Inl (RuntimeError msg)) \<Rightarrow> (Returned 1, evs @ [Stderr msg])
      | (evs, Inl (Other c)) \<Rightarrow> (Uncaught c, evs)
      | (evs, Inr (tid, payload_path, pdf_bytes)) \<Rightarrow>
          (let out_path = Path lib (out args)
           in (Returned 0,
               evs @ [Mkdir (path_parent lib out_path),
                      Write out_path pdf_bytes,
                      Stdout (''Filled PDF written to: '' @ out_path),
                      Stdout (''Template ID: '' @ fmt lib tid),
                      Stdout (''Payload used: '' @ payload_path)])))"

definition fill_main ::
  "pylib \<Rightarrow> fill_args \<Rightarrow> string option \<Rightarrow> fs \<Rightarrow> response \<Rightarrow> exit \<times> event list" where
  "fill_main lib args env_key fs resp =
     (case env_key of
        None \<Rightarrow> missing_api_key
      | Some api_key \<Rightarrow>
          if api_key = [] then missing_api_key else fill_run lib args api_key fs resp)"

section \<open>The Creator\<close>

definition GRAPHQL_URL :: string where
  "GRAPHQL_URL = ''https://graphql.useanvil.com''"

text \<open>\<^verbatim>\<open>slugify\<close>. On UTF-8 bytes the regular expression does what it does on
  code points: every byte of a character outside ASCII is outside
  \<^verbatim>\<open>[a-zA-Z0-9]\<close>, and neighbouring runs merge into one.\<close>

definition alnum :: "char \<Rightarrow> bool" where
  "alnum c = (let n = (of_char c :: nat)
              in (48 \<le> n \<and> n \<le> 57) \<or> (65 \<le> n \<and> n \<le> 90) \<or> (97 \<le> n \<and> n \<le> 122))"

definition lower_char :: "char \<Rightarrow> char" where
  "lower_char c = (let n = (of_char c :: nat)
                   in if 65 \<le> n \<and> n \<le> 90 then char_of (n + 32) else c)"

text \<open>\<open>sub_runs in_run s\<close> replaces every maximal run of characters that are not
  alphanumeric by one hyphen; \<open>in_run\<close> says that the hyphen of the current run has
  been written.\<close>

fun sub_runs :: "bool \<Rightarrow> string \<Rightarrow> string" where
  "sub_runs in_run [] = []"
| "sub_runs in_run (c # cs) =
     (if alnum c then c # sub_runs False cs
      else if in_run then sub_runs True cs
      else CHR ''-'' # sub_runs True cs)"

definition strip_hyphens :: "string \<Rightarrow> string" where
  "strip_hyphens s =
     rev (dropWhile (\<lambda>c. c = CHR ''-'') (rev (dropWhile (\<lambda>c. c = CHR ''-'') s)))"

definition slugify :: "string \<Rightarrow> string" where
  "slugify v = (let slug = map lower_char (strip_hyphens (sub_runs False v))
                in if slug \<noteq> [] then slug else ''template'')"

text \<open>\<^verbatim>\<open>request_json\<close>, on each thing \<^verbatim>\<open>urlopen\<close> can do.\<close>

definition request_json :: "pylib \<Rightarrow> response \<Rightarrow> exn + json" where
  "request_json lib resp =
     (case resp of
        Resp_ok b \<Rightarrow>
          (case decode_strict lib b of
             None \<Rightarrow> Inl (Other ''UnicodeDecodeError'')
           | Some raw \<Rightarrow>
               (case json_loads lib raw of
                  None \<Rightarrow> Inl (RuntimeError (''Non-JSON response: '' @ str_take lib 1000 raw))
                | Some v \<Rightarrow> Inr v))
      | Http_error code detail \<Rightarrow>
          Inl (RuntimeError (''HTTP '' @ str_int code @ '': '' @ decode_replace lib detail))
      | Url_error s \<Rightarrow> Inl (RuntimeError (''Network error: '' @ s))
      | Raises c \<Rightarrow> Inl (Other c))"

text \<open>The last three lines of \<^verbatim>\<open>graphql_json\<close> and of \<^verbatim>\<open>graphql_upload\<close>:
  \<^verbatim>\<open>out.get("errors")\<close> is tested for truth, \<^verbatim>\<open>out.get("data", {})\<close> is returned.\<close>

definition graphql_result :: "pylib \<Rightarrow> json \<Rightarrow> exn + json" where
  "graphql_result lib out_v =
     and_then (get_method out_v ''errors'') (\<lambda>errs.
       if truthy errs
       then Inl (RuntimeError (''GraphQL errors: '' @ json_dumps_unicode lib errs))
       else (case out_v of
               JObj kvs \<Rightarrow> Inr (case map_of kvs ''data'' of None \<Rightarrow> JObj [] | Some d \<Rightarrow> d)
             | _ \<Rightarrow> Inl (Other ''AttributeError'')))"

definition graphql_json_request :: "pylib \<Rightarrow> string \<Rightarrow> string \<Rightarrow> (string \<times> json) list \<Rightarrow> request" where
  "graphql_json_request lib api_key query variables =
     \<lparr> url = GRAPHQL_URL,
       meth = ''POST'',
       headers = [(''Authorization'', auth_header lib api_key),
                  (''Content-Type'', ''application/json''),
                  (''Accept'', ''application/json'')],
       body = json_dumps lib (JObj [(''query'', JStr query), (''variables'', JObj variables)]) \<rparr>"

text \<open>\<^verbatim>\<open>graphql_json\<close>: the request is sent, then \<open>resp\<close> is what comes back.\<close>

definition graphql_json ::
  "pylib \<Rightarrow> response \<Rightarrow> string \<Rightarrow> string \<Rightarrow> (string \<times> json) list \<Rightarrow> event list \<times> (exn + json)" where
  "graphql_json lib resp api_key query variables =
     ([Http (graphql_json_request lib api_key query variables)],
      and_then (request_json lib resp) (graphql_result lib))"

subsection \<open>The multipart encoder\<close>

text \<open>\<^verbatim>\<open>sep.join(xs)\<close> on bytes.\<close>

fun join :: "'a list \<Rightarrow> 'a list list \<Rightarrow> 'a list" where
  "join sep [] = []"
| "join sep [x] = x"
| "join sep (x # y # ys) = x @ sep @ join sep (y # ys)"

text \<open>The inner function \<^verbatim>\<open>add_part\<close>: the two elements it appends to \<^verbatim>\<open>parts\<close>.\<close>

definition add_part :: "string \<Rightarrow> string \<Rightarrow> bytes \<Rightarrow> string option \<Rightarrow> string option \<Rightarrow> bytes list" where
  "add_part boundary name content content_type fname =
     (let header =
            [''--'' @ boundary]
            @ [case fname of
                 None \<Rightarrow> ''Content-Disposition: form-data; name='' @ [DQ] @ name @ [DQ]
               | Some f \<Rightarrow> ''Content-Disposition: form-data; name='' @ [DQ] @ name @ [DQ]
                            @ ''; filename='' @ [DQ] @ f @ [DQ]]
            @ (if opt_truthy content_type
               then (case content_type of None \<Rightarrow> [] | Some ct \<Rightarrow> [''Content-Type: '' @ ct])
               else [])
            @ [[]]
      in [join CRLF header, content])"

text \<open>The boundary, from \<^verbatim>\<open>uuid.uuid4().hex\<close>.\<close>

definition boundary_of :: "string \<Rightarrow> string" where
  "boundary_of hex = ''----anvil-boundary-'' @ hex"

text \<open>\<^verbatim>\<open>mimetypes.guess_type(filename)[0] or "application/pdf"\<close>.\<close>

definition mime_of :: "pylib \<Rightarrow> string \<Rightarrow> string" where
  "mime_of lib filename =
     (if opt_truthy (guess_type lib filename)
      then (case guess_type lib filename of None \<Rightarrow> ''application/pdf'' | Some m \<Rightarrow> m)
      else ''application/pdf'')"

text \<open>Lines 76 to 99 of \<^verbatim>\<open>graphql_upload\<close>: the body.\<close>

definition upload_body ::
  "pylib \<Rightarrow> string \<Rightarrow> string \<Rightarrow> (string \<times> json) list \<Rightarrow> string \<Rightarrow> string \<Rightarrow> string \<Rightarrow> bytes \<Rightarrow> bytes" where
  "upload_body lib boundary query variables upload_var_path filename mime file_bytes =
     (let operations = JObj [(''query'', JStr query), (''variables'', JObj variables)];
          mapping = JObj [(''0'', JList [JStr upload_var_path])];
          parts = add_part boundary ''operations'' (json_dumps lib operations) (Some ''application/json'') None
                @ add_part boundary ''map'' (json_dumps lib mapping) (Some ''application/json'') None
                @ add_part boundary ''0'' file_bytes (Some mime) (Some filename)
                @ [''--'' @ boundary @ ''--'']
      in join CRLF parts @ CRLF)"

definition upload_request ::
  "pylib \<Rightarrow> string \<Rightarrow> string \<Rightarrow> string \<Rightarrow> (string \<times> json) list \<Rightarrow> string \<Rightarrow> path \<Rightarrow> bytes \<Rightarrow> request" where
  "upload_request lib hex api_key query variables upload_var_path file_path file_bytes =
     (let boundary = boundary_of hex;
          filename = path_name lib file_path;
          mime = mime_of lib filename
      in \<lparr> url = GRAPHQL_URL,
           meth = ''POST'',
           headers = [(''Authorization'', auth_header lib api_key),
                      (''Content-Type'', ''multipart/form-data; boundary='' @ boundary),
                      (''Accept'', ''application/json'')],
           body = upload_body lib boundary query variables upload_var_path filename mime file_bytes \<rparr>)"

text \<open>\<^verbatim>\<open>graphql_upload\<close>. Reading the file comes first and may raise; then the
  request is sent.\<close>

definition graphql_upload ::
  "pylib \<Rightarrow> fs \<Rightarrow> string \<Rightarrow> response \<Rightarrow> string \<Rightarrow> string \<Rightarrow> (string \<times> json) list \<Rightarrow> string \<Rightarrow> path
     \<Rightarrow> event list \<times> (exn + json)" where
  "graphql_upload lib fs hex resp api_key query variables upload_var_path file_path =
     (case read_bytes fs file_path of
        Inl e \<Rightarrow> ([], Inl e)
      | Inr file_bytes \<Rightarrow>
          ([Http (upload_request lib hex api_key query variables upload_var_path file_path file_bytes)],
           and_then (request_json lib resp) (graphql_result lib)))"

subsection \<open>The run\<close>

record create_args =
  pdf :: string
  title :: "string option"
  output_dir :: string
  no_publish :: bool
  detect_fields :: bool
  advanced_detect_fields :: bool
  detect_boxes_advanced :: bool
  alias_id :: "string list"

text \<open>The three query texts: triple-quoted strings, every line ending in a newline,
  the first line empty.\<close>

definition py_lines :: "string list \<Rightarrow> string" where
  "py_lines ls = concat (map (\<lambda>l. l @ [LF]) ls)"

definition create_query :: string where
  "create_query = py_lines
     ['''',
      ''mutation CreateCast('',
      ''  $title: String,'',
      ''  $file: Upload!,'',
      ''  $isTemplate: Boolean,'',
      ''  $detectFields: Boolean,'',
      ''  $detectBoxesAdvanced: Boolean,'',
      ''  $advancedDetectFields: Boolean,'',
      ''  $aliasIds: JSON'',
      '') {'',
      ''  createCast('',
      ''    title: $title'',
      ''    file: $file'',
      ''    isTemplate: $isTemplate'',
      ''    detectFields: $detectFields'',
      ''    detectBoxesAdvanced: $detectBoxesAdvanced'',
      ''    advancedDetectFields: $advancedDetectFields'',
      ''    aliasIds: $aliasIds'',
      ''  ) {'',
      ''    eid'',
      ''    name'',
      ''    title'',
      ''    hasBeenPublished'',
      ''    publishedNumber'',
      ''    latestDraftVersionNumber'',
      ''    exampleData'',
      ''    fieldInfo'',
      ''  }'',
      ''}'']"

definition publish_query :: string where
  "publish_query = py_lines
     ['''',
      ''mutation PublishCast($eid: String!, $title: String!, $description: String) {'',
      ''  publishCast(eid: $eid, title: $title, description: $description) {'',
      ''    eid'',
      ''    name'',
      ''    title'',
      ''    hasBeenPublished'',
      ''    publishedNumber'',
      ''    latestDraftVersionNumber'',
      ''    exampleData'',
      ''    fieldInfo'',
      ''  }'',
      ''}'']"

definition cast_query :: string where
  "cast_query = py_lines
     ['''',
      ''query Cast($eid: String!) {'',
      ''  cast(eid: $eid) {'',
      ''    eid'',
      ''    name'',
      ''    title'',
      ''    hasBeenPublished'',
      ''    publishedNumber'',
      ''    latestDraftVersionNumber'',
      ''    exampleData'',
      ''    fieldInfo'',
      ''  }'',
      ''}'']"

text \<open>\<^verbatim>\<open>v[k]\<close> on a decoded value, with a string key.\<close>

definition subscript :: "json \<Rightarrow> string \<Rightarrow> exn + json" where
  "subscript v k =
     (case v of
        JObj kvs \<Rightarrow> (case map_of kvs k of None \<Rightarrow> Inl (Other ''KeyError'') | Some x \<Rightarrow> Inr x)
      | _ \<Rightarrow> Inl (Other ''TypeError''))"

text \<open>\<^verbatim>\<open>args.alias_id or None\<close> and \<^verbatim>\<open>args.title or pdf_path.stem\<close>.\<close>

definition alias_json :: "string list \<Rightarrow> json" where
  "alias_json xs = (if xs \<noteq> [] then JList (map JStr xs) else JNull)"

definition title_of :: "pylib \<Rightarrow> create_args \<Rightarrow> path \<Rightarrow> string" where
  "title_of lib args pdf_path =
     (case title args of
        None \<Rightarrow> path_stem lib pdf_path
      | Some t \<Rightarrow> if t \<noteq> [] then t else path_stem lib pdf_path)"

definition create_variables :: "create_args \<Rightarrow> string \<Rightarrow> (string \<times> json) list" where
  "create_variables args ttl =
     [(''title'', JStr ttl),
      (''file'', JNull),
      (''isTemplate'', JBool True),
      (''detectFields'', JBool (detect_fields args)),
      (''detectBoxesAdvanced'', JBool (detect_boxes_advanced args)),
      (''advancedDetectFields'', JBool (advanced_detect_fields args)),
      (''aliasIds'', alias_json (alias_id args))]"

text \<open>Lines 232 to 256: the publish step. The variables are evaluated first
  (\<^verbatim>\<open>cast["eid"]\<close>, then \<^verbatim>\<open>cast.get("title") or title\<close>), then the request is sent.\<close>

definition publish_step ::
  "pylib \<Rightarrow> response \<Rightarrow> string \<Rightarrow> string \<Rightarrow> json \<Rightarrow> event list \<times> (exn + json)" where
  "publish_step lib resp api_key ttl cast =
     (case subscript cast ''eid'' of
        Inl x \<Rightarrow> ([], Inl x)
      | Inr eid \<Rightarrow>
         (case get_method cast ''title'' of
            Inl x \<Rightarrow> ([], Inl x)
          | Inr t \<Rightarrow>
             (case graphql_json lib resp api_key publish_query
                     [(''eid'', eid),
                      (''title'', py_or t (JStr ttl)),
                      (''description'', JStr ''Published via Codex skill script'')] of
                (e, r) \<Rightarrow> (e, and_then r (\<lambda>data. subscript data ''publishCast'')))))"

text \<open>Lines 258 to 273: the record is fetched again.\<close>

definition fetch_step :: "pylib \<Rightarrow> response \<Rightarrow> string \<Rightarrow> json \<Rightarrow> event list \<times> (exn + json)" where
  "fetch_step lib resp api_key cast =
     (case subscript cast ''eid'' of
        Inl x \<Rightarrow> ([], Inl x)
      | Inr eid \<Rightarrow>
         (case graphql_json lib resp api_key cast_query [(''eid'', eid)] of
            (e, r) \<Rightarrow> (e, and_then r (\<lambda>data. subscript data ''cast''))))"

text \<open>The \<^verbatim>\<open>try\<close> block, lines 222 to 273. \<open>rs n\<close> is what \<^verbatim>\<open>urlopen\<close> does on
  the run's request number \<open>n\<close>, counted from 0.\<close>

definition create_try ::
  "pylib \<Rightarrow> fs \<Rightarrow> string \<Rightarrow> (nat \<Rightarrow> response) \<Rightarrow> create_args \<Rightarrow> string \<Rightarrow> path \<Rightarrow> string
     \<Rightarrow> event list \<times> (exn + json)" where
  "create_try lib fs hex rs args api_key pdf_path ttl =
     (case graphql_upload lib fs hex (rs 0) api_key create_query (create_variables args ttl)
             ''variables.file'' pdf_path of
        (e1, Inl x) \<Rightarrow> (e1, Inl x)
      | (e1, Inr data) \<Rightarrow>
         (case subscript data ''createCast'' of
            Inl x \<Rightarrow> (e1, Inl x)
          | Inr cast \<Rightarrow>
             (case (if \<not> no_publish args then publish_step lib (rs 1) api_key ttl cast
                    else ([], Inr cast)) of
                (e2, Inl x) \<Rightarrow> (e1 @ e2, Inl x)
              | (e2, Inr cast2) \<Rightarrow>
                 (case fetch_step lib (rs (if \<not> no_publish args then 2 else 1)) api_key cast2 of
                    (e3, r) \<Rightarrow> (e1 @ e2 @ e3, r)))))"

text \<open>Lines 286 to 295: the example payload, from the items of the cast record.\<close>

definition is_dict :: "json \<Rightarrow> bool" where
  "is_dict v = (case v of JObj kvs \<Rightarrow> True | _ \<Rightarrow> False)"

definition key_in :: "string \<Rightarrow> json \<Rightarrow> bool" where
  "key_in k v = (case v of JObj kvs \<Rightarrow> dict_has kvs k | _ \<Rightarrow> False)"

definition example_payload :: "(string \<times> json) list \<Rightarrow> string \<Rightarrow> json" where
  "example_payload cast ttl =
     (let example_data = py_or (dict_get cast ''exampleData'') (JObj [])
      in if is_dict example_data \<and> key_in ''data'' example_data then example_data
         else JObj [(''title'', py_or (dict_get cast ''title'') (JStr ttl)),
                    (''fontSize'', JInt 10),
                    (''textColor'', JStr ''#333333''),
                    (''data'', if is_dict example_data then example_data else JObj [])])"

text \<open>Lines 297 to 299: the field count (\<open>JNull\<close> is \<^verbatim>\<open>None\<close>).\<close>

definition field_info_of :: "(string \<times> json) list \<Rightarrow> json" where
  "field_info_of cast = py_or (dict_get cast ''fieldInfo'') (JObj [])"

definition detected_field_count :: "(string \<times> json) list \<Rightarrow> json" where
  "detected_field_count cast =
     (let field_info = field_info_of cast;
          fields = (case field_info of JObj fi \<Rightarrow> dict_get fi ''fields'' | _ \<Rightarrow> JNull)
      in case fields of JList xs \<Rightarrow> JInt (int (length xs)) | _ \<Rightarrow> JNull)"

text \<open>Lines 301 to 318: the metadata object.\<close>

definition metadata_of ::
  "create_args \<Rightarrow> (string \<times> json) list \<Rightarrow> json \<Rightarrow> path \<Rightarrow> path \<Rightarrow> json" where
  "metadata_of args cast eid pdf_path example_path =
     JObj [(''templateId'', eid),
           (''templateName'', dict_get cast ''name''),
           (''templateTitle'', dict_get cast ''title''),
           (''hasBeenPublished'', dict_get cast ''hasBeenPublished''),
           (''publishedNumber'', dict_get cast ''publishedNumber''),
           (''latestDraftVersionNumber'', dict_get cast ''latestDraftVersionNumber''),
           (''sourcePdfPath'', JStr pdf_path),
           (''fieldInfo'', field_info_of cast),
           (''detectedFieldCount'', detected_field_count cast),
           (''detectors'',
              JObj [(''detectFields'', JBool (detect_fields args)),
                    (''detectBoxesAdvanced'', JBool (detect_boxes_advanced args)),
                    (''advancedDetectFields'', JBool (advanced_detect_fields args)),
                    (''aliasIds'', alias_json (alias_id args))]),
           (''examplePayloadPath'', JStr example_path)]"

text \<open>Lines 278 to 335: everything after the \<^verbatim>\<open>try\<close>. \<^verbatim>\<open>cast.get\<close> needs a dict,
  \<^verbatim>\<open>re.sub\<close> in \<^verbatim>\<open>slugify\<close> needs a string, \<^verbatim>\<open>cast["eid"]\<close> needs the key.\<close>

definition create_finish ::
  "pylib \<Rightarrow> create_args \<Rightarrow> path \<Rightarrow> string \<Rightarrow> json \<Rightarrow> exit \<times> event list" where
  "create_finish lib args pdf_path ttl cast_v =
     (let odir = Path lib (output_dir args)
      in case cast_v of
           JObj cast \<Rightarrow>
             (case py_or (py_or (dict_get cast ''name'') (dict_get cast ''title'')) (JStr ttl) of
                JStr s \<Rightarrow>
                  (case map_of cast ''eid'' of
                     None \<Rightarrow> (Uncaught ''KeyError'', [Mkdir odir])
                   | Some eid \<Rightarrow>
                      (let safe_name = slugify s;
                           metadata_path =
                             path_join lib odir (safe_name @ ''_'' @ fmt lib eid @ ''.template.json'');
                           example_path =
                             path_join lib odir (safe_name @ ''_'' @ fmt lib eid @ ''.example-payload.json'');
                           pl = example_payload cast ttl;
                           cnt = detected_field_count cast;
                           metadata = metadata_of args cast eid pdf_path example_path
                       in (Returned 0,
                           [Mkdir odir,
                            Write metadata_path (json_dumps_indent lib metadata @ [LF]),
                            Write example_path (json_dumps_indent lib pl @ [LF]),
                            Stdout (''Template created: '' @ fmt lib eid),
                            Stdout (''Template name: '' @ fmt lib (dict_get cast ''name'')),
                            Stdout (''Template title: '' @ fmt lib (dict_get cast ''title''))]
                           @ (if cnt \<noteq> JNull then [Stdout (''Detected fields: '' @ fmt lib cnt)] else [])
                           @ [Stdout (''Metadata file: '' @ metadata_path),
                              Stdout (''Example payload file: '' @ example_path)]
                           @ (if cnt = JInt 0
                              then [Stderr (''Warning: no fields detected. For scanned/non-fillable PDFs ''
                                            @ ''keep --detect-boxes-advanced enabled.'')]
                              else []))))
              | _ \<Rightarrow> (Uncaught ''TypeError'', [Mkdir odir]))
         | _ \<Rightarrow> (Uncaught ''AttributeError'', [Mkdir odir]))"

text \<open>\<^verbatim>\<open>main\<close> of the Creator, given the parsed arguments, the value of
  \<^verbatim>\<open>ANVIL_API_KEY\<close>, the file system, the hex digits of the random UUID and the
  server's answers.\<close>

definition create_run ::
  "pylib \<Rightarrow> create_args \<Rightarrow> string \<Rightarrow> fs \<Rightarrow> string \<Rightarrow> (nat \<Rightarrow> response) \<Rightarrow> exit \<times> event list" where
  "create_run lib args api_key fs hex rs =
     (let pdf_path = Path lib (pdf args)
      in if \<not> path_exists fs pdf_path then (Returned 2, [Stderr (''PDF not found: '' @ pdf_path)])
         else
          (let ttl = title_of lib args pdf_path
           in case create_try lib fs hex rs args api_key pdf_path ttl of
                (evs, Inl (RuntimeError msg)) \<Rightarrow> (Returned 1, evs @ [Stderr msg])
              | (evs, Inl (Other c)) \<Rightarrow> (Uncaught c, evs)
              | (evs, Inr cast) \<Rightarrow>
                  (case create_finish lib args pdf_path ttl cast of
                     (ex, evs') \<Rightarrow> (ex, evs @ evs'))))"

definition create_main ::
  "pylib \<Rightarrow> create_args \<Rightarrow> string option \<Rightarrow> fs \<Rightarrow> string \<Rightarrow> (nat \<Rightarrow> response) \<Rightarrow> exit \<times> event list" where
  "create_main lib args env_key fs hex rs =
     (case env_key of
        None \<Rightarrow> missing_api_key
      | Some api_key \<Rightarrow>
          if api_key = [] then missing_api_key else create_run lib args api_key fs hex rs)"

section \<open>A multipart/form-data parser\<close>










section \<open>Remote errors\<close>


section \<open>A stand-in library and a small world, for the examples\<close>

text \<open>
  The concrete runs below need a library and a file system. \<open>json_text\<close> prints a
  value the way \<^verbatim>\<open>json.dumps\<close> does with its default separators, for values made of
  \<^verbatim>\<open>null\<close>, booleans, ints, lists, dicts and strings of printable ASCII without quote
  or backslash; the examples use no other value. \<open>stub_lib\<close> decodes exactly the texts
  of \<open>stub_documents\<close>, prints every value compactly (also where the scripts ask for
  indentation), takes bytes for text as they are and leaves the Base64 encoding out, and
  treats a path as the string it was made from, which is right for the plain relative
  paths of the examples. Every theorem below is stated for an arbitrary library; the
  stand-in only serves the concrete runs.
\<close>

primrec json_text :: "json \<Rightarrow> string" where
  "json_text JNull = ''null''"
| "json_text (JBool b) = (if b then ''true'' else ''false'')"
| "json_text (JInt i) = str_int i"
| "json_text (JFloat f) =
     (case f of NaN \<Rightarrow> ''NaN'' | PosInf \<Rightarrow> ''Infinity'' | NegInf \<Rightarrow> ''-Infinity'' | Finite q \<Rightarrow> ''0.0'')"
| "json_text (JStr s) = [DQ] @ s @ [DQ]"
| "json_text (JList xs) = ''['' @ join '', '' (map json_text xs) @ '']''"
| "json_text (JObj kvs) =
     ''{'' @ join '', '' (map (\<lambda>(k, t). [DQ] @ k @ [DQ] @ '': '' @ t) (map (map_prod id json_text) kvs))
     @ ''}''"

definition meta_ok :: json where
  "meta_ok = JObj [(''templateId'', JStr ''tpl_1''), (''examplePayloadPath'', JStr ''payload.json'')]"

definition meta_blank :: json where
  "meta_blank = JObj [(''templateId'', JStr []), (''examplePayloadPath'', JStr [])]"

definition payload_jane :: json where
  "payload_jane = JObj [(''data'', JObj [(''name'', JStr ''Jane'')])]"

definition payload_list :: json where
  "payload_list = JList [JInt 1, JInt 2]"

definition jane_args :: fill_args where
  "jane_args = \<lparr> template_id = Some ''abc123'', template_metadata = None,
                  payload = Some ''payload.json'', out = ''out.pdf'', version_number = None,
                  no_interactive = False, default_read_only = False \<rparr>"

definition list_args :: fill_args where
  "list_args = \<lparr> template_id = Some ''abc123'', template_metadata = None,
                  payload = Some ''list.json'', out = ''out.pdf'', version_number = None,
                  no_interactive = False, default_read_only = False \<rparr>"

text \<open>The hex digits of a version-4 UUID, and a file that contains the closing line of
  the boundary made from them.\<close>

definition sample_hex :: string where
  "sample_hex = ''3f2b8c1e9d4a4e7fa1b2c3d4e5f60718''"


text \<open>A cast record as the service returns it, the responses that carry it, a response
  with GraphQL errors, and arguments for a Creator run that does not publish.\<close>

definition cast_items :: "(string \<times> json) list" where
  "cast_items =
     [(''eid'', JStr ''e1''),
      (''name'', JStr ''Tax Form''),
      (''title'', JStr ''Tax Form''),
      (''exampleData'', JObj [(''name'', JStr ''Jane'')]),
      (''fieldInfo'', JObj [(''fields'', JList [])])]"

definition cast_record :: json where
  "cast_record = JObj cast_items"


definition resp_create :: json where
  "resp_create = JObj [(''data'', JObj [(''createCast'', cast_record)])]"

definition resp_cast :: json where
  "resp_cast = JObj [(''data'', JObj [(''cast'', cast_record)])]"

definition resp_errors :: json where
  "resp_errors = JObj [(''errors'', JList [JObj [(''message'', JStr ''Not allowed'')]])]"

definition form_args :: create_args where
  "form_args = \<lparr> pdf = ''form.pdf'', title = None, output_dir = ''out'', no_publish = True,
                  detect_fields = True, advanced_detect_fields = True,
                  detect_boxes_advanced = False, alias_id = [] \<rparr>"


definition stub_documents :: "json list" where
  "stub_documents =
     [meta_ok, meta_blank, payload_jane, payload_list, resp_create, resp_cast, resp_errors]"

definition stub_lib :: pylib where
  "stub_lib =
     \<lparr> json_loads = map_of (map (\<lambda>v. (json_text v, v)) stub_documents),
       json_dumps = json_text,
       json_dumps_unicode = json_text,
       json_dumps_indent = json_text,
       decode_strict = Some,
       decode_replace = (\<lambda>b. b),
       b64encode = (\<lambda>b. b),
       guess_type = (\<lambda>n. if suffix ''.pdf'' n then Some ''application/pdf'' else None),
       py_str = json_text,
       str_take = take,
       Path = (\<lambda>s. s),
       path_name = (\<lambda>p. rev (takeWhile (\<lambda>c. c \<noteq> CHR ''/'') (rev p))),
       path_stem = (\<lambda>p. takeWhile (\<lambda>c. c \<noteq> CHR ''.'') (rev (takeWhile (\<lambda>c. c \<noteq> CHR ''/'') (rev p)))),
       path_parent = (\<lambda>p. rev (drop 1 (dropWhile (\<lambda>c. c \<noteq> CHR ''/'') (rev p)))),
       path_join = (\<lambda>d n. d @ ''/'' @ n) \<rparr>"

definition stub_fs :: fs where
  "stub_fs = map_of
     [(''meta.json'', File (json_text meta_ok)),
      (''blank.json'', File (json_text meta_blank)),
      (''payload.json'', File (json_text payload_jane)),
      (''list.json'', File (json_text payload_list)),
      (''form.pdf'', File ''%PDF-1.4'')]"





section \<open>Lemmas\<close>

subsection \<open>Splitting around a delimiter\<close>















subsection \<open>Dicts, files and the resolution functions\<close>

lemma load_exists: "load_json_file lib fs p = Inr v \<Longrightarrow> path_exists fs p"
  by (auto simp: load_json_file_def read_text_def read_bytes_def and_then_def path_exists_def
           split: option.splits node.splits)

lemma map_of_dict_set: "map_of (dict_set k v kvs) = (map_of kvs)(k \<mapsto> v)"
  by (induction kvs) auto

lemma dict_get_set: "dict_get (dict_set k v kvs) k' = (if k' = k then v else dict_get kvs k')"
  by (simp add: dict_get_def map_of_dict_set)

lemma from_metadata_truthy:
  assumes "load_json_file lib fs m = Inr (JObj kvs)"
  shows "template_id_from_metadata lib fs (Some m) =
           (if truthy (dict_get kvs ''templateId'') then Inr (dict_get kvs ''templateId'', Some m)
            else Inl (RuntimeError (''templateId missing in metadata: '' @ m)))"
  using assms load_exists[OF assms]
  by (simp add: template_id_from_metadata_def and_then_def get_method_def)

lemma resolve_absent:
  "\<not> opt_truthy tid \<Longrightarrow> resolve_template_id lib fs tid mp = template_id_from_metadata lib fs mp"
  by (cases tid) (simp_all add: resolve_template_id_def)

lemma fill_prepare_object:
  assumes "resolve_template_id lib fs (template_id args) (opt_path lib (template_metadata args))
             = Inr (tid, rm)"
    and "resolve_payload_path lib fs (opt_path lib (payload args)) rm = Inr pp"
    and "load_json_file lib fs pp = Inr (JObj kvs)"
  shows "fill_prepare lib args fs
         = Inr (tid, pp, inject_flags (no_interactive args) (default_read_only args) kvs)"
  using assms load_exists[OF assms(3)] by (simp add: fill_prepare_def and_then_def)

lemma fill_prepare_other:
  assumes "resolve_template_id lib fs (template_id args) (opt_path lib (template_metadata args))
             = Inr (tid, rm)"
    and "resolve_payload_path lib fs (opt_path lib (payload args)) rm = Inr pp"
    and "load_json_file lib fs pp = Inr v"
    and "\<not> is_dict v"
  shows "fill_prepare lib args fs = Inl (RuntimeError ''Payload JSON must be an object'')"
  using assms load_exists[OF assms(3)]
  by (cases v) (simp_all add: fill_prepare_def and_then_def is_dict_def)

lemma fill_main_key:
  "api_key \<noteq> [] \<Longrightarrow> fill_main lib args (Some api_key) fs resp = fill_run lib args api_key fs resp"
  by (simp add: fill_main_def)

lemma fill_run_events:
  assumes "fill_prepare lib args fs = Inr (tid, pp, pl)"
  shows "\<exists>rest. snd (fill_run lib args api_key fs resp)
           = Http (fill_request lib tid api_key pl (version_number args)) # rest"
  using assms
  by (auto simp: fill_run_def fill_try_def and_then_def Let_def split: sum.splits exn.splits)

subsection \<open>The stand-in world\<close>

lemmas stub_defs = load_json_file_def read_text_def read_bytes_def stub_fs_def stub_lib_def
  and_then_def stub_documents_def meta_ok_def meta_blank_def payload_jane_def payload_list_def
  resp_create_def resp_cast_def resp_errors_def cast_record_def cast_items_def

lemma stub_load_meta: "load_json_file stub_lib stub_fs ''meta.json'' = Inr meta_ok"
  by (simp add: stub_defs)

lemma stub_load_blank: "load_json_file stub_lib stub_fs ''blank.json'' = Inr meta_blank"
  by (simp add: stub_defs)

lemma stub_load_jane: "load_json_file stub_lib stub_fs ''payload.json'' = Inr payload_jane"
  by (simp add: stub_defs)

lemma stub_load_list: "load_json_file stub_lib stub_fs ''list.json'' = Inr payload_list"
  by (simp add: stub_defs)
lemma graphql_upload_shape:
  assumes "graphql_upload lib fs hex resp k q vs u p = (evs, r)"
  shows "(evs = [] \<and> (\<exists>c. r = Inl (Other c)))
       \<or> ((\<exists>rq. evs = [Http rq]) \<and> r = and_then (request_json lib resp) (graphql_result lib))"
  using assms
  by (auto simp: graphql_upload_def read_bytes_def split: sum.splits option.splits node.splits)

lemma subscript_raises: "subscript v key = Inl e \<Longrightarrow> \<exists>c. e = Other c"
  by (auto simp: subscript_def split: json.splits option.splits)

lemma get_method_raises: "get_method v key = Inl e \<Longrightarrow> \<exists>c. e = Other c"
  by (auto simp: get_method_def split: json.splits)

lemma publish_step_shape:
  assumes "publish_step lib resp k ttl cast = (evs, r)"
  shows "(evs = [] \<and> (\<exists>c. r = Inl (Other c)))
       \<or> ((\<exists>rq. evs = [Http rq])
          \<and> (\<forall>e. and_then (request_json lib resp) (graphql_result lib) = Inl e \<longrightarrow> r = Inl e))"
proof (cases "subscript cast ''eid''")
  case (Inl x)
  from subscript_raises[OF Inl] obtain c where "x = Other c" ..
  with Inl have "publish_step lib resp k ttl cast = ([], Inl (Other c))"
    by (simp add: publish_step_def)
  with assms show ?thesis by auto
next
  case eid: (Inr eid)
  show ?thesis
  proof (cases "get_method cast ''title''")
    case (Inl x)
    from get_method_raises[OF Inl] obtain c where "x = Other c" ..
    with Inl eid have "publish_step lib resp k ttl cast = ([], Inl (Other c))"
      by (simp add: publish_step_def)
    with assms show ?thesis by auto
  next
    case (Inr t)
    with eid assms show ?thesis
      by (auto simp: publish_step_def graphql_json_def and_then_def split: sum.splits)
  qed
qed

lemma fetch_step_shape:
  assumes "fetch_step lib resp k cast = (evs, r)"
  shows "(evs = [] \<and> (\<exists>c. r = Inl (Other c)))
       \<or> ((\<exists>rq. evs = [Http rq])
          \<and> (\<forall>e. and_then (request_json lib resp) (graphql_result lib) = Inl e \<longrightarrow> r = Inl e))"
proof (cases "subscript cast ''eid''")
  case (Inl x)
  from subscript_raises[OF Inl] obtain c where "x = Other c" ..
  with Inl have "fetch_step lib resp k cast = ([], Inl (Other c))"
    by (simp add: fetch_step_def)
  with assms show ?thesis by auto
next
  case (Inr eid)
  with assms show ?thesis
    by (auto simp: fetch_step_def graphql_json_def and_then_def split: sum.splits)
qed

lemma create_try_shape:
  assumes "create_try lib fs hex rs args k p ttl = (evs, r)"
  shows "(\<forall>x\<in>set evs. is_http x)
       \<and> (evs = [] \<longrightarrow> (\<exists>c. r = Inl (Other c)))
       \<and> (evs \<noteq> [] \<longrightarrow>
            (\<forall>e. and_then (request_json lib (rs (length evs - 1))) (graphql_result lib) = Inl e
                 \<longrightarrow> r = Inl e))"
proof -
  obtain e1 r1 where s1: "graphql_upload lib fs hex (rs 0) k create_query (create_variables args ttl)
             ''variables.file'' p = (e1, r1)"
    by (cases "graphql_upload lib fs hex (rs 0) k create_query (create_variables args ttl)
             ''variables.file'' p") 
  note sh1 = graphql_upload_shape[OF s1]
  show ?thesis
  proof (cases r1)
    case (Inl x)
    with assms s1 have "evs = e1" "r = Inl x" by (simp_all add: create_try_def)
    with sh1 Inl show ?thesis by auto
  next
    case (Inr data)
    with sh1 obtain rq1 where e1: "e1 = [Http rq1]" by auto
    show ?thesis
    proof (cases "subscript data ''createCast''")
      case (Inl x)
      with assms s1 Inr have "evs = e1" "r = Inl x" by (simp_all add: create_try_def)
      with sh1 e1 Inr Inl show ?thesis by (auto dest: subscript_raises)
    next
      case c: (Inr cast)
      obtain e2 r2 where s2: "(if \<not> no_publish args then publish_step lib (rs 1) k ttl cast
                    else ([], Inr cast)) = (e2, r2)"
        by (cases "(if \<not> no_publish args then publish_step lib (rs 1) k ttl cast
                    else ([], Inr cast))")
      show ?thesis
      proof (cases r2)
        case (Inl x)
        with assms s1 Inr c s2 have ev: "evs = e1 @ e2" "r = Inl x" by (simp_all add: create_try_def)
        from s2 Inl have np: "\<not> no_publish args" by (auto split: if_splits)
        with s2 have "publish_step lib (rs 1) k ttl cast = (e2, r2)" by simp
        from publish_step_shape[OF this] Inl ev e1 sh1 Inr show ?thesis by auto
      next
        case c2: (Inr cast2)
        obtain e3 r3 where s3: "fetch_step lib (rs (if \<not> no_publish args then 2 else 1)) k cast2
                                = (e3, r3)"
          by (cases "fetch_step lib (rs (if \<not> no_publish args then 2 else 1)) k cast2")
        with assms s1 Inr c s2 c2 have ev: "evs = e1 @ e2 @ e3" "r = r3"
          by (simp_all add: create_try_def)
        note sh3 = fetch_step_shape[OF s3]
        show ?thesis
        proof (cases "no_publish args")
          case True
          with s2 have "e2 = []" by simp
          with sh3 ev e1 True sh1 Inr show ?thesis by auto
        next
          case False
          with s2 have "publish_step lib (rs 1) k ttl cast = (e2, r2)" by simp
          from publish_step_shape[OF this] c2 obtain rq2 where "e2 = [Http rq2]" by auto
          moreover from publish_step_shape[OF \<open>publish_step lib (rs 1) k ttl cast = (e2, r2)\<close>] c2
          have "\<forall>e. and_then (request_json lib (rs 1)) (graphql_result lib) \<noteq> Inl e" by auto
          ultimately show ?thesis using sh3 ev e1 False by (auto simp: numeral_2_eq_2)
        qed
      qed
    qed
  qed
qed

lemma create_finish_no_http: "\<forall>x\<in>set (snd (create_finish lib args p ttl cast)). \<not> is_http x"
  by (auto simp: create_finish_def Let_def split: json.splits option.splits)

lemma create_finish_writes:
  "fst (create_finish lib args p ttl cast) \<noteq> Returned 0
   \<Longrightarrow> \<forall>x\<in>set (snd (create_finish lib args p ttl cast)). \<not> is_write x"
  by (auto simp: create_finish_def Let_def split: json.splits option.splits)

lemma fill_try_shape:
  assumes "fill_try lib args k fs resp = (evs, r)"
  shows "(evs = [] \<and> (\<exists>e. r = Inl e))
       \<or> ((\<exists>rq. evs = [Http rq]) \<and> (\<forall>e. fill_pdf lib resp = Inl e \<longrightarrow> r = Inl e))"
  using assms
  by (auto simp: fill_try_def and_then_def split: sum.splits prod.splits)

lemma create_run_cases:
  assumes "path_exists fs (Path lib (pdf args))"
    and "create_try lib fs hex rs args k (Path lib (pdf args)) (title_of lib args (Path lib (pdf args)))
           = (evs, r)"
  shows "create_run lib args k fs hex rs =
           (case r of
              Inl (RuntimeError msg) \<Rightarrow> (Returned 1, evs @ [Stderr msg])
            | Inl (Other c) \<Rightarrow> (Uncaught c, evs)
            | Inr cast \<Rightarrow>
                (fst (create_finish lib args (Path lib (pdf args))
                        (title_of lib args (Path lib (pdf args))) cast),
                 evs @ snd (create_finish lib args (Path lib (pdf args))
                        (title_of lib args (Path lib (pdf args))) cast)))"
  using assms
  by (simp add: create_run_def Let_def split: sum.splits exn.splits prod.splits)

lemma create_main_key:
  "k \<noteq> [] \<Longrightarrow> create_main lib args (Some k) fs hex rs = create_run lib args k fs hex rs"
  by (simp add: create_main_def)

lemma main_no_key:
  "\<not> opt_truthy k \<Longrightarrow> create_main lib args k fs hex rs = missing_api_key"
  "\<not> opt_truthy k \<Longrightarrow> fill_main lib fargs k fs resp = missing_api_key"
  by (cases k; simp add: create_main_def fill_main_def)+


lemma filter_none: "\<forall>x\<in>set xs. \<not> P x \<Longrightarrow> filter P xs = []"
  by (induction xs) auto



lemma http_not_write: "is_http e \<Longrightarrow> \<not> is_write e"
  by (cases e) simp_all

lemma no_http_after_write:
  assumes "\<forall>x\<in>set xs. is_http x" "\<forall>y\<in>set ys. \<not> is_http y"
  shows "filter is_http (dropWhile (\<lambda>e. \<not> is_write e) (xs @ ys)) = []"
proof -
  have "dropWhile (\<lambda>e. \<not> is_write e) (xs @ ys) = dropWhile (\<lambda>e. \<not> is_write e) ys"
    using assms(1) by (intro dropWhile_append2) (simp add: http_not_write)
  moreover have "\<forall>y\<in>set (dropWhile (\<lambda>e. \<not> is_write e) ys). \<not> is_http y"
    using assms(2) by (auto dest: set_dropWhileD)
  ultimately show ?thesis by (simp add: filter_none)
qed

lemma fill_run_cases:
  assumes "fill_try lib args k fs resp = (evs, r)"
  shows "fill_run lib args k fs resp =
           (case r of
              Inl (RuntimeError msg) \<Rightarrow> (Returned 1, evs @ [Stderr msg])
            | Inl (Other c) \<Rightarrow> (Uncaught c, evs)
            | Inr (tid, payload_path, pdf_bytes) \<Rightarrow>
                (Returned 0,
                 evs @ [Mkdir (path_parent lib (Path lib (out args))),
                        Write (Path lib (out args)) pdf_bytes,
                        Stdout (''Filled PDF written to: '' @ Path lib (out args)),
                        Stdout (''Template ID: '' @ fmt lib tid),
                        Stdout (''Payload used: '' @ payload_path)]))"
  using assms
  by (simp add: fill_run_def Let_def split: sum.splits exn.splits prod.splits)

lemma fill_try_http: "fill_try lib args k fs resp = (evs, r) \<Longrightarrow> \<forall>x\<in>set evs. is_http x"
  by (drule fill_try_shape) auto

lemma create_run_writes:
  "fst (create_run lib args k fs hex rs) \<noteq> Returned 0
     \<longrightarrow> \<not> list_ex is_write (snd (create_run lib args k fs hex rs))"
  "filter is_http (dropWhile (\<lambda>e. \<not> is_write e) (snd (create_run lib args k fs hex rs))) = []"
proof -
  let ?p = "Path lib (pdf args)"
  obtain evs r where t: "create_try lib fs hex rs args k ?p (title_of lib args ?p) = (evs, r)"
    by (cases "create_try lib fs hex rs args k ?p (title_of lib args ?p)")
  from create_try_shape[OF t] have http: "\<forall>x\<in>set evs. is_http x" by simp
  then have nw: "\<forall>x\<in>set evs. \<not> is_write x" by (simp add: http_not_write)
  show "fst (create_run lib args k fs hex rs) \<noteq> Returned 0
     \<longrightarrow> \<not> list_ex is_write (snd (create_run lib args k fs hex rs))"
  proof (cases "path_exists fs ?p")
    case False
    then show ?thesis by (simp add: create_run_def Let_def)
  next
    case True
    show ?thesis
      unfolding create_run_cases[OF True t] using nw create_finish_writes[of lib args ?p _ _]
      by (auto simp: list_ex_iff split: sum.splits exn.splits)
  qed
  show "filter is_http (dropWhile (\<lambda>e. \<not> is_write e) (snd (create_run lib args k fs hex rs))) = []"
  proof (cases "path_exists fs ?p")
    case False
    then show ?thesis by (simp add: create_run_def Let_def)
  next
    case True
    have "filter is_http (dropWhile (\<lambda>e. \<not> is_write e) (evs @ ys)) = []"
      if "\<forall>y\<in>set ys. \<not> is_http y" for ys
      using http that by (rule no_http_after_write)
    from this[of "[]"] this[of "[Stderr _]"] this[OF create_finish_no_http]
    show ?thesis
      unfolding create_run_cases[OF True t]
      by (auto split: sum.splits exn.splits)
  qed
qed

lemma fill_run_writes:
  "fst (fill_run lib args k fs resp) \<noteq> Returned 0
     \<longrightarrow> \<not> list_ex is_write (snd (fill_run lib args k fs resp))"
  "filter is_http (dropWhile (\<lambda>e. \<not> is_write e) (snd (fill_run lib args k fs resp))) = []"
proof -
  obtain evs r where t: "fill_try lib args k fs resp = (evs, r)"
    by (cases "fill_try lib args k fs resp")
  from fill_try_http[OF t] have http: "\<forall>x\<in>set evs. is_http x" .
  then have nw: "\<forall>x\<in>set evs. \<not> is_write x" by (simp add: http_not_write)
  show "fst (fill_run lib args k fs resp) \<noteq> Returned 0
     \<longrightarrow> \<not> list_ex is_write (snd (fill_run lib args k fs resp))"
    unfolding fill_run_cases[OF t] using nw
    by (auto simp: list_ex_iff split: sum.splits exn.splits)
  have "filter is_http (dropWhile (\<lambda>e. \<not> is_write e) (evs @ ys)) = []"
    if "\<forall>y\<in>set ys. \<not> is_http y" for ys
    using http that by (rule no_http_after_write)
  from this[of "[]"] this[of "[Stderr _]"] this[of "[Mkdir _, Write _ _, Stdout _, Stdout _, Stdout _]"]
  show "filter is_http (dropWhile (\<lambda>e. \<not> is_write e) (snd (fill_run lib args k fs resp))) = []"
    unfolding fill_run_cases[OF t]
    by (auto split: sum.splits exn.splits)
qed







section \<open>The claims\<close>

subsection \<open>C1: the multipart body read back\<close>




subsection \<open>C2: explicit values, metadata values, and their absence\<close>

text \<open>
  Claim C2 says that an explicit value always wins and that every \<^verbatim>\<open>templateId\<close> of a
  metadata file is returned unchanged. The code tests truth, not presence: an explicit
  identifier that is the empty string is passed over, and a \<^verbatim>\<open>templateId\<close> that is
  the empty string is reported missing.
\<close>

theorem empty_identifier_counterexample:
  "resolve_template_id stub_lib stub_fs None (Some ''blank.json'')
     = Inl (RuntimeError ''templateId missing in metadata: blank.json'')
   \<and> resolve_template_id stub_lib stub_fs (Some []) (Some ''meta.json'')
     = Inr (JStr ''tpl_1'', Some ''meta.json'')"
  using stub_load_blank stub_load_meta
  by (simp add: resolve_template_id_def template_id_from_metadata_def and_then_def get_method_def
        path_exists_def stub_fs_def meta_blank_def meta_ok_def dict_get_def)

text \<open>
  Claim C2, amended. An explicit identifier that is not empty is returned whatever the
  metadata says, and an explicit payload path is returned likewise. Without such an
  identifier, a metadata file whose \<^verbatim>\<open>templateId\<close> is true in Python's sense gives that
  value unchanged; without an explicit payload path, a non-empty string under
  \<^verbatim>\<open>examplePayloadPath\<close> gives that path. With neither an explicit value nor a metadata
  file, resolution raises \<^verbatim>\<open>RuntimeError\<close>.
\<close>

theorem resolution_precedence:
  "(t \<noteq> [] \<longrightarrow> resolve_template_id lib fs (Some t) mp = Inr (JStr t, mp))
   \<and> resolve_payload_path lib fs (Some p) mp = Inr p
   \<and> (\<not> opt_truthy tid \<and> load_json_file lib fs m = Inr (JObj kvs)
        \<and> truthy (dict_get kvs ''templateId'')
      \<longrightarrow> resolve_template_id lib fs tid (Some m) = Inr (dict_get kvs ''templateId'', Some m))
   \<and> (load_json_file lib fs m = Inr (JObj kvs) \<and> dict_get kvs ''examplePayloadPath'' = JStr s
        \<and> s \<noteq> []
      \<longrightarrow> resolve_payload_path lib fs None (Some m) = Inr (Path lib s))
   \<and> (\<not> opt_truthy tid
      \<longrightarrow> resolve_template_id lib fs tid None
          = Inl (RuntimeError ''Provide either --template-id or --template-metadata''))
   \<and> resolve_payload_path lib fs None None
       = Inl (RuntimeError ''Provide --payload when using --template-id directly'')"
proof (intro conjI impI)
  show "resolve_template_id lib fs (Some t) mp = Inr (JStr t, mp)" if "t \<noteq> []"
    using that by (simp add: resolve_template_id_def)
  show "resolve_payload_path lib fs (Some p) mp = Inr p"
    by (simp add: resolve_payload_path_def)
  show "resolve_template_id lib fs tid (Some m) = Inr (dict_get kvs ''templateId'', Some m)"
    if "\<not> opt_truthy tid \<and> load_json_file lib fs m = Inr (JObj kvs)
        \<and> truthy (dict_get kvs ''templateId'')"
    using that by (simp add: resolve_absent from_metadata_truthy)
  show "resolve_payload_path lib fs None (Some m) = Inr (Path lib s)"
    if "load_json_file lib fs m = Inr (JObj kvs) \<and> dict_get kvs ''examplePayloadPath'' = JStr s
        \<and> s \<noteq> []"
    using that by (simp add: resolve_payload_path_def and_then_def get_method_def)
  show "resolve_template_id lib fs tid None
          = Inl (RuntimeError ''Provide either --template-id or --template-metadata'')"
    if "\<not> opt_truthy tid"
    using that by (simp add: resolve_absent template_id_from_metadata_def)
  show "resolve_payload_path lib fs None None
       = Inl (RuntimeError ''Provide --payload when using --template-id directly'')"
    by (simp add: resolve_payload_path_def)
qed

text \<open>The statement at a concrete run.\<close>

theorem resolution_precedence_witness:
  "resolve_template_id stub_lib stub_fs (Some ''abc123'') (Some ''meta.json'')
     = Inr (JStr ''abc123'', Some ''meta.json'')
   \<and> resolve_template_id stub_lib stub_fs None (Some ''meta.json'')
     = Inr (JStr ''tpl_1'', Some ''meta.json'')
   \<and> resolve_payload_path stub_lib stub_fs None (Some ''meta.json'') = Inr ''payload.json''
   \<and> resolve_template_id stub_lib stub_fs None None
     = Inl (RuntimeError ''Provide either --template-id or --template-metadata'')"
  using resolution_precedence[of "''abc123''" stub_lib stub_fs "Some ''meta.json''" p None
          "''meta.json''" "[(''templateId'', JStr ''tpl_1''), (''examplePayloadPath'', JStr ''payload.json'')]"
          "''payload.json''"]
        stub_load_meta
  by (simp add: meta_ok_def dict_get_def stub_lib_def)

subsection \<open>C3: the two rendering flags\<close>

text \<open>
  Claim C3. In a run of the Filler that gets as far as its request (the key is set, both
  resolutions succeed and the payload file holds a JSON object), the body sent is the
  serialised payload after \<open>inject_flags\<close>. Unless \<^verbatim>\<open>--no-interactive\<close> was given,
  that payload has \<^verbatim>\<open>useInteractiveFields\<close> true and \<^verbatim>\<open>defaultReadOnly\<close> equal to
  the toggle, whatever the file said under those keys, and every other key as in the
  file; with \<^verbatim>\<open>--no-interactive\<close> it is the file's object unchanged. For the payload
  \<^verbatim>\<open>{"data": {"name": "Jane"}}\<close> and the toggle off, the result is that object followed
  by the two flags.
\<close>

theorem interactive_flags_injected:
  assumes "api_key \<noteq> []"
    and "resolve_template_id lib fs (template_id args) (opt_path lib (template_metadata args))
             = Inr (tid, rm)"
    and "resolve_payload_path lib fs (opt_path lib (payload args)) rm = Inr pp"
    and "load_json_file lib fs pp = Inr (JObj kvs)"
  shows "hd (snd (fill_main lib args (Some api_key) fs resp))
           = Http (fill_request lib tid api_key
                     (inject_flags (no_interactive args) (default_read_only args) kvs)
                     (version_number args))
       \<and> body (fill_request lib tid api_key
                     (inject_flags (no_interactive args) (default_read_only args) kvs)
                     (version_number args))
           = json_dumps lib (JObj (inject_flags (no_interactive args) (default_read_only args) kvs))
       \<and> (\<not> no_interactive args \<longrightarrow>
            dict_get (inject_flags (no_interactive args) (default_read_only args) kvs)
              ''useInteractiveFields'' = JBool True
          \<and> dict_get (inject_flags (no_interactive args) (default_read_only args) kvs)
              ''defaultReadOnly'' = JBool (default_read_only args)
          \<and> (\<forall>k. k \<noteq> ''useInteractiveFields'' \<and> k \<noteq> ''defaultReadOnly'' \<longrightarrow>
                map_of (inject_flags (no_interactive args) (default_read_only args) kvs) k
                = map_of kvs k))
       \<and> (no_interactive args \<longrightarrow>
            inject_flags (no_interactive args) (default_read_only args) kvs = kvs)
       \<and> inject_flags False False [(''data'', JObj [(''name'', JStr ''Jane'')])]
           = [(''data'', JObj [(''name'', JStr ''Jane'')]),
              (''useInteractiveFields'', JBool True),
              (''defaultReadOnly'', JBool False)]"
proof -
  from fill_run_events[OF fill_prepare_object[OF assms(2,3,4)], of api_key resp]
  have "hd (snd (fill_main lib args (Some api_key) fs resp))
           = Http (fill_request lib tid api_key
                     (inject_flags (no_interactive args) (default_read_only args) kvs)
                     (version_number args))"
    by (auto simp: fill_main_key[OF assms(1)])
  then show ?thesis
    by (simp add: inject_flags_def fill_request_def dict_get_set map_of_dict_set dict_get_def)
qed

text \<open>The statement at a concrete run.\<close>

theorem interactive_flags_injected_witness:
  "hd (snd (fill_main stub_lib jane_args (Some ''key'') stub_fs (Resp_ok ''%PDF-1.4'')))
     = Http (fill_request stub_lib (JStr ''abc123'') ''key''
               [(''data'', JObj [(''name'', JStr ''Jane'')]),
                (''useInteractiveFields'', JBool True),
                (''defaultReadOnly'', JBool False)] None)"
proof -
  have 1: "resolve_template_id stub_lib stub_fs (template_id jane_args)
             (opt_path stub_lib (template_metadata jane_args)) = Inr (JStr ''abc123'', None)"
    by (simp add: jane_args_def resolve_template_id_def opt_path_def)
  have 2: "resolve_payload_path stub_lib stub_fs (opt_path stub_lib (payload jane_args)) None
             = Inr ''payload.json''"
    by (simp add: jane_args_def resolve_payload_path_def opt_path_def stub_lib_def)
  have 3: "load_json_file stub_lib stub_fs ''payload.json''
             = Inr (JObj [(''data'', JObj [(''name'', JStr ''Jane'')])])"
    using stub_load_jane by (simp add: payload_jane_def)
  have 0: "''key'' \<noteq> []" by simp
  from interactive_flags_injected[OF 0 1 2 3, of "Resp_ok ''%PDF-1.4''"]
  show ?thesis by (simp add: jane_args_def)
qed

subsection \<open>C4: exit codes\<close>




subsection \<open>C5: a response outside 200..299\<close>



subsection \<open>C6: nothing is written unless every step succeeded\<close>

text \<open>
  Claim C6. A run of the Creator or of the Filler that does not return 0 (it returned 1
  or 2, or an exception left \<^verbatim>\<open>main\<close>) has written no file: neither the metadata
  file nor the example payload, nor the output PDF. In every run, no request is sent once
  the first file has been written: the writes come after all the requests. (A write is
  taken to succeed; a failing write is a local I/O error, outside the claim.)
\<close>

theorem no_output_on_failure:
  "(fst (create_main lib cargs k fs hex rs) \<noteq> Returned 0
      \<longrightarrow> \<not> list_ex is_write (snd (create_main lib cargs k fs hex rs)))
   \<and> (fst (fill_main lib fargs k fs resp) \<noteq> Returned 0
      \<longrightarrow> \<not> list_ex is_write (snd (fill_main lib fargs k fs resp)))
   \<and> filter is_http (dropWhile (\<lambda>e. \<not> is_write e) (snd (create_main lib cargs k fs hex rs))) = []
   \<and> filter is_http (dropWhile (\<lambda>e. \<not> is_write e) (snd (fill_main lib fargs k fs resp))) = []"
proof (cases "opt_truthy k")
  case False
  then show ?thesis by (simp add: main_no_key missing_api_key_def)
next
  case True
  then obtain ak where k: "k = Some ak" "ak \<noteq> []" by (cases k) auto
  show ?thesis
    using create_run_writes[of lib cargs ak fs hex rs] fill_run_writes[of lib fargs ak fs resp]
    by (simp add: k create_main_key fill_main_key)
qed

text \<open>The statement at a concrete run.\<close>

theorem no_output_on_failure_witness:
  "\<not> list_ex is_write
       (snd (create_main stub_lib form_args (Some ''key'') stub_fs sample_hex
               (\<lambda>n. Http_error 401 ''Unauthorized'')))
   \<and> \<not> list_ex is_write
       (snd (fill_main stub_lib jane_args (Some ''key'') stub_fs (Http_error 401 ''Unauthorized'')))"
proof -
  have a: "fst (create_main stub_lib form_args (Some ''key'') stub_fs sample_hex
               (\<lambda>n. Http_error 401 ''Unauthorized'')) \<noteq> Returned 0"
    by code_simp
  have b: "fst (fill_main stub_lib jane_args (Some ''key'') stub_fs (Http_error 401 ''Unauthorized''))
           \<noteq> Returned 0"
    by code_simp
  from no_output_on_failure[where lib = stub_lib and cargs = form_args and k = "Some ''key''"
         and fs = stub_fs and hex = sample_hex and rs = "\<lambda>n. Http_error 401 ''Unauthorized''"
         and fargs = jane_args and resp = "Http_error 401 ''Unauthorized''"] a b
  show ?thesis by blast
qed

subsection \<open>C7: the example payload\<close>



subsection \<open>C8: the detected field count\<close>



subsection \<open>C9: a payload that is not an object\<close>

text \<open>
  Claim C9. When the payload file the Filler resolved holds JSON that is not an object,
  the run prints \<^verbatim>\<open>Payload JSON must be an object\<close> to standard error and returns 1;
  that line is its only event, so no request was made.
\<close>

theorem non_object_payload_rejected:
  assumes "api_key \<noteq> []"
    and "resolve_template_id lib fs (template_id args) (opt_path lib (template_metadata args))
             = Inr (tid, rm)"
    and "resolve_payload_path lib fs (opt_path lib (payload args)) rm = Inr pp"
    and "load_json_file lib fs pp = Inr v"
    and "\<not> is_dict v"
  shows "fill_main lib args (Some api_key) fs resp
         = (Returned 1, [Stderr ''Payload JSON must be an object''])"
  using fill_prepare_other[OF assms(2,3,4,5)]
  by (simp add: fill_main_key[OF assms(1)] fill_run_def fill_try_def)

text \<open>The statement at a concrete run.\<close>

theorem non_object_payload_rejected_witness:
  "fill_main stub_lib list_args (Some ''key'') stub_fs (Resp_ok ''%PDF-1.4'')
     = (Returned 1, [Stderr ''Payload JSON must be an object''])"
proof -
  have 1: "resolve_template_id stub_lib stub_fs (template_id list_args)
             (opt_path stub_lib (template_metadata list_args)) = Inr (JStr ''abc123'', None)"
    by (simp add: list_args_def resolve_template_id_def opt_path_def)
  have 2: "resolve_payload_path stub_lib stub_fs (opt_path stub_lib (payload list_args)) None
             = Inr ''list.json''"
    by (simp add: list_args_def resolve_payload_path_def opt_path_def stub_lib_def)
  have 3: "\<not> is_dict payload_list" by (simp add: is_dict_def payload_list_def)
  have 0: "''key'' \<noteq> []" by simp
  from non_object_payload_rejected[OF 0 1 2 stub_load_list 3]
  show ?thesis .
qed

subsection \<open>C10: a false metadata value is a missing one\<close>

text \<open>
  Claim C10. When no explicit identifier is given and the metadata's \<^verbatim>\<open>templateId\<close>
  is false in Python's sense, \<^verbatim>\<open>resolve_template_id\<close> raises the
  \<^verbatim>\<open>templateId missing\<close> error; when no explicit payload path is given and the
  metadata's \<^verbatim>\<open>examplePayloadPath\<close> is false, \<^verbatim>\<open>resolve_payload_path\<close> raises the
  \<^verbatim>\<open>examplePayloadPath missing\<close> error. A key that is absent reads as \<^verbatim>\<open>None\<close>,
  which is false, and so do the empty string, \<^verbatim>\<open>false\<close> and \<^verbatim>\<open>0\<close>.
\<close>

theorem falsy_metadata_value_is_missing:
  "(\<not> opt_truthy tid \<and> load_json_file lib fs m = Inr (JObj kvs)
      \<and> \<not> truthy (dict_get kvs ''templateId'')
    \<longrightarrow> resolve_template_id lib fs tid (Some m)
        = Inl (RuntimeError (''templateId missing in metadata: '' @ m)))
   \<and> (load_json_file lib fs m = Inr (JObj kvs) \<and> \<not> truthy (dict_get kvs ''examplePayloadPath'')
    \<longrightarrow> resolve_payload_path lib fs None (Some m)
        = Inl (RuntimeError ''examplePayloadPath missing in metadata; provide --payload explicitly''))
   \<and> (map_of kvs k = None \<longrightarrow> \<not> truthy (dict_get kvs k))
   \<and> \<not> truthy (JStr []) \<and> \<not> truthy JNull \<and> \<not> truthy (JBool False) \<and> \<not> truthy (JInt 0)"
  by (simp add: resolve_absent from_metadata_truthy resolve_payload_path_def and_then_def
        get_method_def dict_get_def)

text \<open>The statement at a concrete run.\<close>

theorem falsy_metadata_value_is_missing_witness:
  "resolve_template_id stub_lib stub_fs None (Some ''blank.json'')
     = Inl (RuntimeError ''templateId missing in metadata: blank.json'')
   \<and> resolve_payload_path stub_lib stub_fs None (Some ''blank.json'')
     = Inl (RuntimeError ''examplePayloadPath missing in metadata; provide --payload explicitly'')"
  using falsy_metadata_value_is_missing[of None stub_lib stub_fs "''blank.json''"
          "[(''templateId'', JStr []), (''examplePayloadPath'', JStr [])]" "''name''"]
        stub_load_blank
  by (simp add: meta_blank_def dict_get_def)

end
